theory Spec2Isabelle
  imports Complex_Main "HOL-Library.Word" "HOL-Library.Sublist"
begin

section \<open>JavaScript values\<close>

text \<open>
  A JavaScript string is a sequence of 16-bit code units. The string literals of the
  source are ASCII; \<open>lit\<close> turns an Isabelle string into the code units of the literal.
\<close>

type_synonym js_string = "16 word list"

definition lit :: "string \<Rightarrow> js_string" where
  "lit s = map of_char s"

text \<open>
  \<open>String.prototype.trim\<close> removes WhiteSpace and LineTerminator code points from both
  ends (ECMAScript: TAB, LF, VT, FF, CR, SP, NBSP, U+1680, U+2000..U+200A, LS, PS, U+202F,
  U+205F, U+3000, ZWNBSP). All of them are single code units.
\<close>

definition is_whitespace :: "16 word \<Rightarrow> bool" where
  "is_whitespace c \<longleftrightarrow>
     c \<in> {0x9, 0xA, 0xB, 0xC, 0xD, 0x20, 0xA0, 0x1680, 0x2028, 0x2029, 0x202F, 0x205F,
          0x3000, 0xFEFF}
     \<or> (0x2000 \<le> c \<and> c \<le> 0x200A)"

definition trim :: "js_string \<Rightarrow> js_string" where
  "trim s = rev (dropWhile is_whitespace (rev (dropWhile is_whitespace s)))"

text \<open>
  The values that reach the program untyped: \<open>response.data\<close> of an axios response is the
  parsed JSON body (or the body text when it is not JSON), and reading a property that is
  not there gives \<open>undefined\<close>. A number is carried by the value of its double when that
  is finite; an object by its own properties, each key once.
\<close>

datatype js_value =
    JUndefined
  | JNull
  | JBool bool
  | JNumber rat
  | JString js_string
  | JArray "js_value list"
  | JObject "(js_string \<times> js_value) list"

text \<open>ToBoolean: what \<open>!v\<close> and \<open>v || w\<close> test.\<close>

fun truthy :: "js_value \<Rightarrow> bool" where
  "truthy JUndefined = False"
| "truthy JNull = False"
| "truthy (JBool b) = b"
| "truthy (JNumber q) = (q \<noteq> 0)"
| "truthy (JString s) = (s \<noteq> [])"
| "truthy (JArray xs) = True"
| "truthy (JObject kvs) = True"

fun nullish :: "js_value \<Rightarrow> bool" where
  "nullish JUndefined = True"
| "nullish JNull = True"
| "nullish v = False"


text \<open>
  \<open>v.name\<close> on a value that is neither \<open>null\<close> nor \<open>undefined\<close>, for the names the
  source reads (\<open>ParsedResults\<close>, \<open>ParsedText\<close>, \<open>choices\<close>, \<open>message\<close>, \<open>content\<close>,
  \<open>trim\<close> on a non-string): no prototype defines them, so only an object's own
  property can answer.
\<close>

fun get_named :: "js_string \<Rightarrow> js_value \<Rightarrow> js_value" where
  "get_named name (JObject kvs) = (case map_of kvs name of Some v \<Rightarrow> v | None \<Rightarrow> JUndefined)"
| "get_named name v = JUndefined"

text \<open>
  \<open>v[0]\<close> on a value that is neither \<open>null\<close> nor \<open>undefined\<close>: the first element of an
  array, the first code unit of a string, the own property \<open>"0"\<close> of an object.
\<close>

fun get_index0 :: "js_value \<Rightarrow> js_value" where
  "get_index0 (JArray xs) = (case xs of [] \<Rightarrow> JUndefined | x # _ \<Rightarrow> x)"
| "get_index0 (JString s) = (case s of [] \<Rightarrow> JUndefined | c # _ \<Rightarrow> JString [c])"
| "get_index0 (JObject kvs) = get_named (lit ''0'') (JObject kvs)"
| "get_index0 v = JUndefined"

text \<open>Optional chaining \<open>v?.p\<close>: \<open>undefined\<close> when \<open>v\<close> is nullish, the access otherwise.\<close>

definition opt_chain :: "js_value \<Rightarrow> (js_value \<Rightarrow> js_value) \<Rightarrow> js_value" where
  "opt_chain v access = (if nullish v then JUndefined else access v)"

section \<open>The collaborators of the pipeline\<close>

text \<open>
  The two requests the program sends with \<open>axios.post\<close>: the multipart form to
  \<open>https://api.ocr.space/parse/image\<close> (fields \<open>base64Image\<close>, \<open>apikey\<close>, \<open>language\<close>,
  \<open>isTable\<close>) and the JSON body to \<open>https://api.openai.com/v1/chat/completions\<close> (model,
  content of the system message, content of the user message, \<open>max_tokens\<close>, and the
  \<open>Authorization\<close> header).
\<close>

datatype request =
    OcrSpaceParse js_string js_string js_string js_string
  | ChatCompletions js_string js_string js_value nat js_string

text \<open>
  The promise of \<open>axios.post\<close> either resolves with a response, of which the program
  reads \<open>data\<close>, or rejects (a network error, a status outside 2xx) with an error, of
  which some revisions read \<open>message\<close>.
\<close>

datatype http_result = Resolves js_value | Rejects js_string

text \<open>
  \<open>getScreenshot()\<close> of the mounted webcam returns a data URI or \<open>null\<close>; nothing in the
  source excludes that the call throws.
\<close>

datatype screenshot = Returns "js_string option" | Throws js_string

text \<open>
  What one cycle meets outside the component: \<open>webcamRef.current\<close> (\<open>None\<close> when the ref
  is \<open>null\<close>) and the services behind \<open>axios.post\<close>.
\<close>

record env =
  webcamRef :: "screenshot option"
  axios_post :: "request \<Rightarrow> http_result"

section \<open>The component's state (src/App.tsx)\<close>

text \<open>
  The interval is a JavaScript Number. The model determines it when it is an integer
  that a double holds exactly (\<open>|n| \<le> 2^53\<close>); \<open>OtherNumber\<close> stands for a Number the
  model does not determine (a fraction, \<open>NaN\<close>, an infinity, a rounded magnitude), and
  nothing is stated about it.
\<close>

datatype js_number = SafeInteger int | OtherNumber

definition safe_integer :: "int \<Rightarrow> js_number" where
  "safe_integer n = (if \<bar>n\<bar> \<le> 2 ^ 53 then SafeInteger n else OtherNumber)"

record app =
  capturing :: bool
  dotColor :: js_string
  answer :: js_string
  status :: js_string
  settingsOpen :: bool
  openAiKey :: js_string
  ocrKey :: js_string
  prompt :: js_string
  interval :: js_number
  timerRef :: "nat option"
  timers :: "(nat \<times> js_number) list"
  next_timer :: nat

text \<open>
  \<open>timerRef\<close> holds the handle \<open>setInterval\<close> returned (\<open>None\<close> for \<open>null\<close>); \<open>timers\<close> are
  the interval timers of the page that are active, each with its delay in milliseconds;
  \<open>next_timer\<close> is the next fresh handle.

  A function of the component does not change the state while it runs: it calls state
  setters, sends requests, and sets or clears timers. The model returns these calls in
  program order; \<open>run\<close> applies them.
\<close>

datatype event =
    SetCapturing bool
  | SetDotColor js_string
  | SetAnswer js_string
  | SetStatus js_string
  | Post request
  | SetInterval js_number
  | ClearInterval

fun apply_event :: "event \<Rightarrow> app \<Rightarrow> app" where
  "apply_event (SetCapturing b) s = s\<lparr>capturing := b\<rparr>"
| "apply_event (SetDotColor c) s = s\<lparr>dotColor := c\<rparr>"
| "apply_event (SetAnswer a) s = s\<lparr>answer := a\<rparr>"
| "apply_event (SetStatus m) s = s\<lparr>status := m\<rparr>"
| "apply_event (Post r) s = s"
| "apply_event (SetInterval d) s =
     s\<lparr>timerRef := Some (next_timer s), timers := (next_timer s, d) # timers s,
       next_timer := Suc (next_timer s)\<rparr>"
| "apply_event ClearInterval s =
     (case timerRef s of
        None \<Rightarrow> s
      | Some h \<Rightarrow> s\<lparr>timers := filter (\<lambda>t. fst t \<noteq> h) (timers s)\<rparr>)"

fun run :: "event list \<Rightarrow> app \<Rightarrow> app" where
  "run [] s = s"
| "run (e # es) s = run es (apply_event e s)"

fun is_post :: "event \<Rightarrow> bool" where
  "is_post (Post r) = True"
| "is_post e = False"

fun statuses :: "event list \<Rightarrow> js_string list" where
  "statuses [] = []"
| "statuses (SetStatus m # es) = m # statuses es"
| "statuses (e # es) = statuses es"

section \<open>The OCR client and the completion client (src/App.tsx)\<close>

text \<open>
  The form \<open>doOcr\<close> posts and the body and header \<open>askOpenAI\<close> posts; the header is the
  template string \<open>`Bearer ${openAiKey}`\<close>.
\<close>

definition ocr_request :: "app \<Rightarrow> js_string \<Rightarrow> request" where
  "ocr_request s imageBase64 = OcrSpaceParse imageBase64 (ocrKey s) (lit ''eng'') (lit ''false'')"

definition chat_request :: "js_string \<Rightarrow> app \<Rightarrow> js_value \<Rightarrow> request" where
  "chat_request system_prompt s question =
     ChatCompletions (lit ''gpt-3.5-turbo'') system_prompt question 5
       (lit ''Bearer '' @ openAiKey s)"

text \<open>\<open>response.data?.ParsedResults?.[0]?.ParsedText\<close>\<close>

definition parsed_text :: "js_value \<Rightarrow> js_value" where
  "parsed_text data =
     opt_chain (opt_chain (opt_chain data (get_named (lit ''ParsedResults''))) get_index0)
       (get_named (lit ''ParsedText''))"

text \<open>
  \<open>doOcr\<close>: the whole body is inside \<open>try\<close>; a rejected request sets the status and
  returns the empty string. The result is \<open>parsedText || ""\<close>, whatever value
  \<open>parsedText\<close> is.
\<close>

definition doOcr :: "env \<Rightarrow> app \<Rightarrow> js_string \<Rightarrow> event list \<times> js_value" where
  "doOcr env s imageBase64 =
     (let req = ocr_request s imageBase64 in
      case axios_post env req of
        Resolves data \<Rightarrow>
          (let parsedText = parsed_text data in
           ([Post req], if truthy parsedText then parsedText else JString []))
      | Rejects e \<Rightarrow> ([Post req, SetStatus (lit ''OCR failed'')], JString []))"

text \<open>
  \<open>res.data.choices?.[0]?.message?.content?.trim()\<close>: reading \<open>choices\<close> of a nullish
  \<open>data\<close> throws a TypeError, and so does calling \<open>trim\<close> on a content that is not a
  string (\<open>Inl\<close>); a nullish link gives \<open>undefined\<close> (\<open>Inr None\<close>). The TypeErrors
  of the program are told apart by the place that throws them.
\<close>

datatype type_error = ChoicesOfNullish | ContentTrimNotAFunction | TextTrimNotAFunction

definition first_choice_content :: "js_value \<Rightarrow> js_value" where
  "first_choice_content data =
     opt_chain (opt_chain (opt_chain (get_named (lit ''choices'') data) get_index0)
       (get_named (lit ''message''))) (get_named (lit ''content''))"

fun call_trim :: "js_value \<Rightarrow> type_error + js_string option" where
  "call_trim JUndefined = Inr None"
| "call_trim JNull = Inr None"
| "call_trim (JString c) = Inr (Some (trim c))"
| "call_trim v = Inl ContentTrimNotAFunction"

definition trimmed_content :: "js_value \<Rightarrow> type_error + js_string option" where
  "trimmed_content data =
     (if nullish data then Inl ChoicesOfNullish else call_trim (first_choice_content data))"

text \<open>
  \<open>askOpenAI\<close>: the request and the reading of the response are inside \<open>try\<close>; the
  \<open>catch\<close> sets the status and returns the marker. \<open>x || ""\<close> on \<open>undefined\<close> or on the
  empty string is the empty string.
\<close>

definition askOpenAI :: "env \<Rightarrow> app \<Rightarrow> js_value \<Rightarrow> event list \<times> js_string" where
  "askOpenAI env s question =
     (let req = chat_request (prompt s) s question in
      case axios_post env req of
        Rejects e \<Rightarrow> ([Post req, SetStatus (lit ''OpenAI failed'')], lit ''API Error'')
      | Resolves data \<Rightarrow>
          (case trimmed_content data of
             Inl e \<Rightarrow> ([Post req, SetStatus (lit ''OpenAI failed'')], lit ''API Error'')
           | Inr None \<Rightarrow> ([Post req], [])
           | Inr (Some t) \<Rightarrow> ([Post req], if t \<noteq> [] then t else [])))"

section \<open>One cycle (src/App.tsx)\<close>

text \<open>
  \<open>captureAndProcess\<close> is an async function: what it throws rejects its promise, which
  no caller awaits.
\<close>

datatype outcome = Fulfilled | Rejected js_string

definition captureAndProcess :: "env \<Rightarrow> app \<Rightarrow> event list \<times> outcome" where
  "captureAndProcess env s =
     (if openAiKey s = [] \<or> ocrKey s = [] then
        ([SetStatus (lit ''Enter API keys in settings''), SetCapturing False], Fulfilled)
      else
        (case webcamRef env of
           None \<Rightarrow> ([SetStatus (lit ''Capturing...'')], Fulfilled)
         | Some (Throws e) \<Rightarrow> ([SetStatus (lit ''Capturing...'')], Rejected e)
         | Some (Returns None) \<Rightarrow>
             ([SetStatus (lit ''Capturing...''), SetStatus (lit ''Camera failed.'')], Fulfilled)
         | Some (Returns (Some imageSrc)) \<Rightarrow>
             if imageSrc = [] then
               ([SetStatus (lit ''Capturing...''), SetStatus (lit ''Camera failed.'')], Fulfilled)
             else
               (let (ocr_events, text) = doOcr env s imageSrc in
                if \<not> truthy text then
                  (SetStatus (lit ''Capturing...'') # SetStatus (lit ''Extracting text...'')
                     # ocr_events @ [SetStatus (lit ''No text found.''), SetAnswer []],
                   Fulfilled)
                else
                  (let (ai_events, aiAnswer) = askOpenAI env s text in
                   (SetStatus (lit ''Capturing...'') # SetStatus (lit ''Extracting text...'')
                      # ocr_events @ SetStatus (lit ''Getting answer...'')
                      # ai_events @ [SetStatus (lit ''Complete''), SetAnswer aiAnswer],
                    Fulfilled)))))"

section \<open>The session around the cycles (src/App.tsx)\<close>

text \<open>\<open>interval * 1000\<close>, the delay handed to \<open>setInterval\<close>.\<close>

fun times_1000 :: "js_number \<Rightarrow> js_number" where
  "times_1000 (SafeInteger n) = safe_integer (n * 1000)"
| "times_1000 OtherNumber = OtherNumber"

text \<open>
  The effect of the component. With \<open>capturing\<close> it calls \<open>captureAndProcess\<close> itself,
  without awaiting it, and then registers the timer; the calls of the cycle that follow
  its first \<open>await\<close> happen after the registration, and write other fields than it does.
  Otherwise it clears the timer and sets the status. A timer handle of a browser is a
  positive number, so \<open>if (timerRef.current)\<close> tests for \<open>null\<close>.
\<close>

definition useEffect :: "env \<Rightarrow> app \<Rightarrow> event list" where
  "useEffect env s =
     (if capturing s then
        SetDotColor (lit ''green'') # fst (captureAndProcess env s)
          @ [SetInterval (times_1000 (interval s))]
      else
        SetDotColor (lit ''red'') # (if timerRef s \<noteq> None then [ClearInterval] else [])
          @ [SetStatus (lit ''Idle'')])"

text \<open>The cleanup the effect returns when it ran with \<open>capturing\<close>.\<close>

definition cleanup :: "app \<Rightarrow> event list" where
  "cleanup s = (if timerRef s \<noteq> None then [ClearInterval] else [])"

text \<open>The dependencies of the effect: \<open>[capturing, interval, openAiKey, ocrKey, prompt]\<close>.\<close>

definition deps :: "app \<Rightarrow> bool \<times> js_number \<times> js_string \<times> js_string \<times> js_string" where
  "deps s = (capturing s, interval s, openAiKey s, ocrKey s, prompt s)"

text \<open>
  The Start button is disabled while \<open>capturing\<close>; otherwise it calls
  \<open>setCapturing(true)\<close>. React renders again and, a dependency having changed, runs the
  effect (the effect that ran without \<open>capturing\<close> returned no cleanup). When the calls
  of that effect change a dependency in turn, React runs the cleanup it returned and the
  effect once more.
\<close>

definition start_session :: "env \<Rightarrow> app \<Rightarrow> event list" where
  "start_session env s =
     (if capturing s then []
      else
        (let s1 = apply_event (SetCapturing True) s;
             first = useEffect env s1;
             s2 = run first s1;
             second = (if deps s2 = deps s1 then [] else cleanup s2 @ useEffect env s2)
         in SetCapturing True # first @ second))"


section \<open>Settings (src/App.tsx)\<close>

definition DEFAULT_PROMPT :: js_string where
  "DEFAULT_PROMPT = lit ''You are a multiple-choice answering assistant. Read the following question and options, and answer with only the correct option letter (e.g., A, B, C, or D).''"

definition DEFAULT_INTERVAL :: js_number where
  "DEFAULT_INTERVAL = SafeInteger 40"

text \<open>\<open>localStorage\<close>: \<open>getItem\<close> gives \<open>null\<close> (\<open>None\<close>) for a key that is not stored.\<close>

type_synonym storage = "js_string \<Rightarrow> js_string option"

text \<open>\<open>localStorage.getItem(key) || fallback\<close>: \<open>null\<close> and the empty string are falsy.\<close>

definition getItem_or :: "storage \<Rightarrow> js_string \<Rightarrow> js_string \<Rightarrow> js_string" where
  "getItem_or st key fallback =
     (case st key of None \<Rightarrow> fallback | Some v \<Rightarrow> if v = [] then fallback else v)"

text \<open>
  \<open>Number(text)\<close>: white space around the text is dropped; the empty text is \<open>0\<close>; decimal
  digits, with or without a sign, are their value. Every other text (a fraction, an
  exponent, a hexadecimal literal, \<open>Infinity\<close>, no number at all) is left undetermined.
\<close>

definition is_digit :: "16 word \<Rightarrow> bool" where
  "is_digit c \<longleftrightarrow> 0x30 \<le> c \<and> c \<le> 0x39"

definition decimal_value :: "js_string \<Rightarrow> nat" where
  "decimal_value ds = foldl (\<lambda>n c. 10 * n + (unat c - 48)) 0 ds"

definition Number_of_string :: "js_string \<Rightarrow> js_number" where
  "Number_of_string text =
     (let t = trim text in
      if t = [] then SafeInteger 0
      else if list_all is_digit t then safe_integer (int (decimal_value t))
      else if hd t = 0x2B \<and> tl t \<noteq> [] \<and> list_all is_digit (tl t) then
        safe_integer (int (decimal_value (tl t)))
      else if hd t = 0x2D \<and> tl t \<noteq> [] \<and> list_all is_digit (tl t) then
        safe_integer (- int (decimal_value (tl t)))
      else OtherNumber)"

text \<open>
  \<open>n.toString()\<close>: a safe integer prints its decimal digits, after \<open>-\<close> when negative.
  The text of a Number the model does not determine is not determined either.
\<close>

fun decimal :: "nat \<Rightarrow> js_string" where
  "decimal n =
     (if n < 10 then [of_nat (48 + n)] else decimal (n div 10) @ [of_nat (48 + n mod 10)])"

declare decimal.simps [simp del]

fun Number_toString :: "js_number \<Rightarrow> js_string" where
  "Number_toString (SafeInteger n) =
     (if n < 0 then 0x2D # decimal (nat (- n)) else decimal (nat n))"
| "Number_toString OtherNumber = undefined"

text \<open>The state of the component when it mounts: the initial values of \<open>useState\<close>.\<close>

definition initial_app :: "storage \<Rightarrow> app" where
  "initial_app st =
     \<lparr>capturing = False, dotColor = lit ''red'', answer = [], status = lit ''Idle'',
      settingsOpen = False,
      openAiKey = getItem_or st (lit ''openaiKey'') [],
      ocrKey = getItem_or st (lit ''ocrKey'') [],
      prompt = getItem_or st (lit ''customPrompt'') DEFAULT_PROMPT,
      interval = (case st (lit ''interval'') of
                    None \<Rightarrow> DEFAULT_INTERVAL
                  | Some v \<Rightarrow> if v = [] then DEFAULT_INTERVAL else Number_of_string v),
      timerRef = None, timers = [], next_timer = 1\<rparr>"

text \<open>
  The \<open>onChange\<close> handlers of the four fields of the dialog, each with
  \<open>e.target.value\<close>, and \<open>saveSettings\<close>.
\<close>

definition onChange_openAiKey :: "js_string \<Rightarrow> app \<Rightarrow> app" where
  "onChange_openAiKey v s = s\<lparr>openAiKey := v\<rparr>"

definition onChange_ocrKey :: "js_string \<Rightarrow> app \<Rightarrow> app" where
  "onChange_ocrKey v s = s\<lparr>ocrKey := v\<rparr>"

definition onChange_prompt :: "js_string \<Rightarrow> app \<Rightarrow> app" where
  "onChange_prompt v s = s\<lparr>prompt := v\<rparr>"

definition onChange_interval :: "js_string \<Rightarrow> app \<Rightarrow> app" where
  "onChange_interval v s = s\<lparr>interval := Number_of_string v\<rparr>"

definition saveSettings :: "app \<Rightarrow> storage \<Rightarrow> storage \<times> app" where
  "saveSettings s st =
     (st(lit ''openaiKey'' \<mapsto> trim (openAiKey s),
         lit ''ocrKey'' \<mapsto> trim (ocrKey s),
         lit ''customPrompt'' \<mapsto> prompt s,
         lit ''interval'' \<mapsto> Number_toString (interval s)),
      s\<lparr>settingsOpen := False\<rparr>)"

section \<open>The cycle of the revision with the settings panel (src/unnamed/part_001)\<close>

text \<open>
  This revision reads the two keys from the state as well; its prompt is the constant
  \<open>PROMPT\<close>, the text of \<open>DEFAULT_PROMPT\<close>. Its \<open>catch\<close> blocks put \<open>e.message\<close> into the
  status: the message of a rejected request or of a throwing camera is the one the
  collaborator gave, the message of a TypeError is the engine's, \<open>message_of\<close>.
\<close>

definition doOcr_part_001 :: "env \<Rightarrow> app \<Rightarrow> js_string \<Rightarrow> event list \<times> js_value" where
  "doOcr_part_001 env s imageBase64 =
     (if ocrKey s = [] then ([SetStatus (lit ''OCR key not set.'')], JString [])
      else
        (let req = ocr_request s imageBase64 in
         case axios_post env req of
           Resolves data \<Rightarrow>
             (let parsedText = parsed_text data in
              ([Post req], if truthy parsedText then parsedText else JString []))
         | Rejects e \<Rightarrow> ([Post req, SetStatus (lit ''OCR failed: '' @ e)], JString [])))"

definition askOpenAI_part_001 ::
  "(type_error \<Rightarrow> js_string) \<Rightarrow> env \<Rightarrow> app \<Rightarrow> js_value \<Rightarrow> event list \<times> js_string" where
  "askOpenAI_part_001 message_of env s question =
     (if openAiKey s = [] then ([SetStatus (lit ''OpenAI key not set.'')], [])
      else
        (let req = chat_request DEFAULT_PROMPT s question in
         case axios_post env req of
           Rejects e \<Rightarrow>
             ([Post req, SetStatus (lit ''OpenAI failed: '' @ e)], lit ''API Error'')
         | Resolves data \<Rightarrow>
             (case trimmed_content data of
                Inl e \<Rightarrow>
                  ([Post req, SetStatus (lit ''OpenAI failed: '' @ message_of e)],
                   lit ''API Error'')
              | Inr None \<Rightarrow> ([Post req], [])
              | Inr (Some t) \<Rightarrow> ([Post req], if t \<noteq> [] then t else []))))"

text \<open>\<open>text.trim()\<close>: a TypeError when \<open>text\<close> is not a string.\<close>

fun text_trim :: "js_value \<Rightarrow> type_error + js_string" where
  "text_trim (JString t) = Inr (trim t)"
| "text_trim v = Inl TextTrimNotAFunction"

text \<open>\<open>webcamRef.current?.getScreenshot() || null\<close>\<close>

fun imageSrc_part_001 :: "screenshot option \<Rightarrow> js_string + js_string option" where
  "imageSrc_part_001 None = Inr None"
| "imageSrc_part_001 (Some (Throws e)) = Inl e"
| "imageSrc_part_001 (Some (Returns None)) = Inr None"
| "imageSrc_part_001 (Some (Returns (Some img))) = Inr (if img = [] then None else Some img)"

definition captureAndProcess_part_001 ::
  "(type_error \<Rightarrow> js_string) \<Rightarrow> env \<Rightarrow> app \<Rightarrow> event list \<times> outcome" where
  "captureAndProcess_part_001 message_of env s =
     (case imageSrc_part_001 (webcamRef env) of
        Inl e \<Rightarrow>
          ([SetStatus (lit ''Capturing...''), SetStatus (lit ''Error: '' @ e), SetAnswer []],
           Fulfilled)
      | Inr None \<Rightarrow>
          ([SetStatus (lit ''Capturing...''),
            SetStatus (lit ''Camera not ready or failed to capture image.''), SetAnswer []],
           Fulfilled)
      | Inr (Some imageSrc) \<Rightarrow>
          (let (ocr_events, text) = doOcr_part_001 env s imageSrc in
           case text_trim text of
             Inl e \<Rightarrow>
               (SetStatus (lit ''Capturing...'') # SetStatus (lit ''Extracting text...'')
                  # ocr_events @ [SetStatus (lit ''Error: '' @ message_of e), SetAnswer []],
                Fulfilled)
           | Inr trimmed \<Rightarrow>
               if trimmed = [] then
                 (SetStatus (lit ''Capturing...'') # SetStatus (lit ''Extracting text...'')
                    # ocr_events @ [SetStatus (lit ''No text found.''), SetAnswer []],
                  Fulfilled)
               else
                 (let (ai_events, aiAnswer) = askOpenAI_part_001 message_of env s text in
                  (SetStatus (lit ''Capturing...'') # SetStatus (lit ''Extracting text...'')
                     # ocr_events @ SetStatus (lit ''Getting answer...'')
                     # ai_events @ [SetStatus (lit ''Complete''), SetAnswer aiAnswer],
                   Fulfilled))))"

section \<open>Example responses and example states\<close>

definition ocr_body :: "js_value \<Rightarrow> js_value" where
  "ocr_body parsedText =
     JObject [(lit ''ParsedResults'', JArray [JObject [(lit ''ParsedText'', parsedText)]])]"

definition chat_body :: "js_value \<Rightarrow> js_value" where
  "chat_body content =
     JObject [(lit ''choices'', JArray [JObject [(lit ''message'',
       JObject [(lit ''role'', JString (lit ''assistant'')), (lit ''content'', content)])]])]"

fun services :: "http_result \<Rightarrow> http_result \<Rightarrow> request \<Rightarrow> http_result" where
  "services ocr chat (OcrSpaceParse base64Image apikey language isTable) = ocr"
| "services ocr chat (ChatCompletions model system_content user_content max_tokens auth) = chat"

definition example_frame :: js_string where
  "example_frame = lit ''data:image/png;base64,iVBORw0KGgo=''"

definition camera_ready :: "screenshot option" where
  "camera_ready = Some (Returns (Some example_frame))"

definition planet_question :: js_string where
  "planet_question = lit ''Which planet is closest to the sun? A) Venus B) Mercury C) Earth D) Mars''"

definition running_app :: app where
  "running_app =
     \<lparr>capturing = True, dotColor = lit ''green'', answer = lit ''A'', status = lit ''Complete'',
      settingsOpen = False, openAiKey = lit ''sk-test'', ocrKey = lit ''K81234567'',
      prompt = DEFAULT_PROMPT, interval = DEFAULT_INTERVAL, timerRef = Some 1,
      timers = [(1, SafeInteger 40000)], next_timer = 2\<rparr>"

definition env_answers :: env where
  "env_answers =
     \<lparr>webcamRef = camera_ready,
      axios_post = services (Resolves (ocr_body (JString planet_question)))
                     (Resolves (chat_body (JString (lit ''B''))))\<rparr>"

definition env_completion_fails :: env where
  "env_completion_fails =
     \<lparr>webcamRef = camera_ready,
      axios_post = services (Resolves (ocr_body (JString planet_question)))
                     (Rejects (lit ''Request failed with status code 500''))\<rparr>"

text \<open>A frame without text, for which the OCR service answers with a line break.\<close>

definition env_blank_text :: env where
  "env_blank_text =
     \<lparr>webcamRef = camera_ready,
      axios_post = services (Resolves (ocr_body (JString [0x0D, 0x0A])))
                     (Resolves (chat_body (JString (lit ''B''))))\<rparr>"




definition env_no_choices :: env where
  "env_no_choices =
     \<lparr>webcamRef = camera_ready,
      axios_post = services (Resolves (ocr_body (JString planet_question)))
                     (Resolves (JObject [(lit ''id'', JString (lit ''chatcmpl-1''))]))\<rparr>"


definition idle_app :: app where
  "idle_app =
     \<lparr>capturing = False, dotColor = lit ''red'', answer = [], status = lit ''Idle'',
      settingsOpen = False, openAiKey = lit ''sk-test'', ocrKey = lit ''K81234567'',
      prompt = DEFAULT_PROMPT, interval = DEFAULT_INTERVAL, timerRef = None,
      timers = [], next_timer = 1\<rparr>"

section \<open>String literals and digits\<close>

lemma of_char_lt: "(of_char c :: nat) < 256"
  by (metis of_char_mod_256 mod_less_divisor zero_less_numeral)

lemma unat_of_char: "unat (of_char c :: 16 word) = of_char c"
proof -
  have "unat (of_nat (of_char c) :: 16 word) = of_char c"
  proof -
    have "(of_char c :: nat) < 65536"
      by (rule less_trans [OF of_char_lt]) simp
    then show ?thesis by (simp only: unat_of_nat) simp
  qed
  then show ?thesis by (simp only: of_nat_of_char)
qed

lemma of_char_word_eq_iff [simp]: "(of_char a :: 16 word) = of_char b \<longleftrightarrow> a = b"
proof
  assume "(of_char a :: 16 word) = of_char b"
  then have "unat (of_char a :: 16 word) = unat (of_char b :: 16 word)" by simp
  then show "a = b" by (simp only: unat_of_char of_char_eq_iff)
qed simp

text \<open>Two literals of the source are the same string only when they are the same text.\<close>

lemma lit_eq_iff [simp]: "lit a = lit b \<longleftrightarrow> a = b"
  unfolding lit_def by (rule inj_map_eq_map) (simp add: inj_def)

lemma lit_Nil_iff [simp]: "lit a = [] \<longleftrightarrow> a = []" "[] = lit a \<longleftrightarrow> a = []"
  by (auto simp: lit_def)

section \<open>Running a list of calls\<close>

lemma run_append: "run (xs @ ys) s = run ys (run xs s)"
  by (induction xs arbitrary: s) auto

lemma statuses_append: "statuses (xs @ ys) = statuses xs @ statuses ys"
  by (induction xs rule: statuses.induct) auto

lemma run_keeps_deps:
  "\<forall>b. SetCapturing b \<notin> set evs \<Longrightarrow> deps (run evs s) = deps s"
proof (induction evs arbitrary: s)
  case Nil
  then show ?case by simp
next
  case (Cons e evs)
  then have "deps (run evs (apply_event e s)) = deps (apply_event e s)"
    by simp
  moreover from Cons.prems have "deps (apply_event e s) = deps s"
    by (cases e) (auto simp: deps_def split: option.splits)
  ultimately show ?case by simp
qed

section \<open>The calls of the two clients\<close>

lemma doOcr_events:
  "fst (doOcr env s img) = [Post (ocr_request s img)] \<or>
   fst (doOcr env s img) = [Post (ocr_request s img), SetStatus (lit ''OCR failed'')]"
  by (simp add: doOcr_def Let_def split: http_result.splits)

lemma askOpenAI_events:
  "fst (askOpenAI env s q) = [Post (chat_request (prompt s) s q)] \<or>
   fst (askOpenAI env s q) =
     [Post (chat_request (prompt s) s q), SetStatus (lit ''OpenAI failed'')]"
  by (simp add: askOpenAI_def Let_def split: http_result.splits sum.splits option.splits)


section \<open>The shapes of a cycle\<close>

lemma webcam_cases:
  obtains (unmounted) "webcamRef env = None"
  | (throws) e where "webcamRef env = Some (Throws e)"
  | (null) "webcamRef env = Some (Returns None)"
  | (empty) "webcamRef env = Some (Returns (Some []))"
  | (frame) img where "webcamRef env = Some (Returns (Some img))" and "img \<noteq> []"
proof (cases "webcamRef env")
  case None
  then show ?thesis by (rule unmounted)
next
  case (Some shot)
  show ?thesis
  proof (cases shot)
    case (Throws e)
    with Some show ?thesis by (intro throws) simp
  next
    case (Returns r)
    show ?thesis
    proof (cases r)
      case None
      with Some Returns show ?thesis by (intro null) simp
    next
      case (Some img)
      with \<open>webcamRef env = Some shot\<close> Returns show ?thesis
        by (cases "img = []") (auto intro: empty frame)
    qed
  qed
qed

lemma cycle_with_frame:
  assumes "openAiKey s \<noteq> []" and "ocrKey s \<noteq> []"
    and "webcamRef env = Some (Returns (Some img))" and "img \<noteq> []"
  shows "captureAndProcess env s =
    (SetStatus (lit ''Capturing...'') # SetStatus (lit ''Extracting text...'')
       # fst (doOcr env s img)
       @ (if truthy (snd (doOcr env s img)) then
            SetStatus (lit ''Getting answer...'')
              # fst (askOpenAI env s (snd (doOcr env s img)))
              @ [SetStatus (lit ''Complete''),
                 SetAnswer (snd (askOpenAI env s (snd (doOcr env s img))))]
          else [SetStatus (lit ''No text found.''), SetAnswer []]),
     Fulfilled)"
  using assms by (simp add: captureAndProcess_def Let_def split_beta)

text \<open>
  With both keys present a cycle calls \<open>setStatus\<close> and \<open>setAnswer\<close> and posts requests,
  nothing else: no dependency of the effect changes.
\<close>

lemma cycle_never_sets_capturing:
  assumes "openAiKey s \<noteq> []" and "ocrKey s \<noteq> []"
  shows "SetCapturing b \<notin> set (fst (captureAndProcess env s))"
proof (cases env rule: webcam_cases)
  case (frame img)
  have "SetCapturing b \<notin> set (fst (doOcr env s img))"
    using doOcr_events [of env s img] by auto
  moreover have "SetCapturing b \<notin> set (fst (askOpenAI env s q))" for q
    using askOpenAI_events [of env s q] by auto
  ultimately show ?thesis
    by (simp add: cycle_with_frame [OF assms frame])
qed (use assms in \<open>simp_all add: captureAndProcess_def\<close>)

lemma cycle_keeps_deps:
  assumes "openAiKey s \<noteq> []" and "ocrKey s \<noteq> []"
  shows "deps (run (fst (captureAndProcess env s)) s') = deps s'"
  by (rule run_keeps_deps) (simp add: cycle_never_sets_capturing [OF assms])


section \<open>A missing key\<close>

lemma start_session_without_key:
  assumes "openAiKey s = [] \<or> ocrKey s = []" and "\<not> capturing s"
  shows "start_session env s =
    [SetCapturing True, SetDotColor (lit ''green''),
     SetStatus (lit ''Enter API keys in settings''), SetCapturing False,
     SetInterval (times_1000 (interval s)), ClearInterval,
     SetDotColor (lit ''red''), ClearInterval, SetStatus (lit ''Idle'')]"
  using assms
  by (simp add: start_session_def useEffect_def Let_def deps_def captureAndProcess_def
      cleanup_def)

text \<open>
  C3. A cycle that starts with the OCR key or the completion key empty sets the status
  that asks for the keys, calls \<open>setCapturing(false)\<close> and returns: it posts no request. A
  session started so posts no request either and ends not capturing, with the timer it
  registered cleared; the effect that ends it sets the status \<open>Idle\<close> after the status
  that asks for the keys.
\<close>

theorem missing_key_stops_session:
  assumes "openAiKey s = [] \<or> ocrKey s = []"
  shows "captureAndProcess env s =
           ([SetStatus (lit ''Enter API keys in settings''), SetCapturing False], Fulfilled)
       \<and> status (run (fst (captureAndProcess env s)) s) = lit ''Enter API keys in settings''
       \<and> \<not> capturing (run (fst (captureAndProcess env s)) s)
       \<and> filter is_post (fst (captureAndProcess env s)) = []
       \<and> (\<not> capturing s \<longrightarrow>
            filter is_post (start_session env s) = []
          \<and> statuses (start_session env s) = [lit ''Enter API keys in settings'', lit ''Idle'']
          \<and> \<not> capturing (run (start_session env s) s)
          \<and> next_timer s \<notin> fst ` set (timers (run (start_session env s) s)))"
proof -
  from assms have cycle: "captureAndProcess env s =
      ([SetStatus (lit ''Enter API keys in settings''), SetCapturing False], Fulfilled)"
    by (simp add: captureAndProcess_def)
  have session: "filter is_post (start_session env s) = []
      \<and> statuses (start_session env s) = [lit ''Enter API keys in settings'', lit ''Idle'']
      \<and> \<not> capturing (run (start_session env s) s)
      \<and> next_timer s \<notin> fst ` set (timers (run (start_session env s) s))"
    if "\<not> capturing s"
    by (auto simp: start_session_without_key [OF assms that])
  from cycle session show ?thesis
    by simp
qed

theorem missing_key_stops_session_witness:
  "(openAiKey (idle_app\<lparr>ocrKey := []\<rparr>) = [] \<or> ocrKey (idle_app\<lparr>ocrKey := []\<rparr>) = [])
   \<and> \<not> capturing (idle_app\<lparr>ocrKey := []\<rparr>)
   \<and> captureAndProcess env_answers (idle_app\<lparr>ocrKey := []\<rparr>) =
       ([SetStatus (lit ''Enter API keys in settings''), SetCapturing False], Fulfilled)
   \<and> filter is_post (start_session env_answers (idle_app\<lparr>ocrKey := []\<rparr>)) = []
   \<and> statuses (start_session env_answers (idle_app\<lparr>ocrKey := []\<rparr>)) =
       [lit ''Enter API keys in settings'', lit ''Idle'']
   \<and> \<not> capturing (run (start_session env_answers (idle_app\<lparr>ocrKey := []\<rparr>))
         (idle_app\<lparr>ocrKey := []\<rparr>))
   \<and> timers (run (start_session env_answers (idle_app\<lparr>ocrKey := []\<rparr>))
         (idle_app\<lparr>ocrKey := []\<rparr>)) = []"
proof -
  have key: "openAiKey (idle_app\<lparr>ocrKey := []\<rparr>) = [] \<or> ocrKey (idle_app\<lparr>ocrKey := []\<rparr>) = []"
    by simp
  have idle: "\<not> capturing (idle_app\<lparr>ocrKey := []\<rparr>)"
    by (simp add: idle_app_def)
  have "timers (run (start_session env_answers (idle_app\<lparr>ocrKey := []\<rparr>))
      (idle_app\<lparr>ocrKey := []\<rparr>)) = []"
    by (simp add: start_session_without_key [OF key idle]) (simp add: idle_app_def)
  with key idle missing_key_stops_session [OF key, of env_answers] show ?thesis
    by simp
qed

text \<open>
  C10. A cycle that stops at the check of the keys changes the status and \<open>capturing\<close>
  and no other field of the state: the answer stays what it was.
\<close>

theorem missing_key_changes_status_and_capturing_only:
  assumes "openAiKey s = [] \<or> ocrKey s = []"
  shows "run (fst (captureAndProcess env s)) s =
           s\<lparr>status := lit ''Enter API keys in settings'', capturing := False\<rparr>
       \<and> answer (run (fst (captureAndProcess env s)) s) = answer s"
  using assms by (simp add: captureAndProcess_def)

theorem missing_key_changes_status_and_capturing_only_witness:
  "(openAiKey (running_app\<lparr>openAiKey := []\<rparr>) = [] \<or> ocrKey (running_app\<lparr>openAiKey := []\<rparr>) = [])
   \<and> run (fst (captureAndProcess env_answers (running_app\<lparr>openAiKey := []\<rparr>)))
         (running_app\<lparr>openAiKey := []\<rparr>) =
       running_app\<lparr>openAiKey := [], status := lit ''Enter API keys in settings'',
         capturing := False\<rparr>
   \<and> answer (run (fst (captureAndProcess env_answers (running_app\<lparr>openAiKey := []\<rparr>)))
         (running_app\<lparr>openAiKey := []\<rparr>)) = lit ''A''"
  using missing_key_changes_status_and_capturing_only
          [of "running_app\<lparr>openAiKey := []\<rparr>" env_answers]
  by (simp add: running_app_def)

section \<open>No frame\<close>



section \<open>A cycle that reaches the completion client\<close>

lemma keys_running_app: "openAiKey running_app \<noteq> []" "ocrKey running_app \<noteq> []"
  by (simp_all add: running_app_def)


lemma example_frame_not_empty: "example_frame \<noteq> []"
  by (simp add: example_frame_def)

lemma parsed_text_ocr_body: "parsed_text (ocr_body v) = v"
  by (simp add: parsed_text_def ocr_body_def opt_chain_def)

lemma first_choice_content_chat_body: "first_choice_content (chat_body v) = v"
  by (simp add: first_choice_content_def chat_body_def opt_chain_def)

lemma trim_B: "trim (lit ''B'') = lit ''B''"
  by (simp add: trim_def lit_def is_whitespace_def)

text \<open>
  C7. In a cycle in which the capture gives a frame, the OCR client gives a non-empty
  text and the completion request resolves with a string as the content of its first
  choice, the status ends as \<open>Complete\<close> and the answer is that content, trimmed.
\<close>

theorem successful_cycle_sets_trimmed_answer:
  assumes "openAiKey s \<noteq> []" and "ocrKey s \<noteq> []"
    and "webcamRef env = Some (Returns (Some img))" and "img \<noteq> []"
    and "axios_post env (ocr_request s img) = Resolves ocr_data"
    and "parsed_text ocr_data = JString t" and "t \<noteq> []"
    and "axios_post env (chat_request (prompt s) s (JString t)) = Resolves chat_data"
    and "\<not> nullish chat_data" and "first_choice_content chat_data = JString c"
  shows "status (run (fst (captureAndProcess env s)) s) = lit ''Complete''
       \<and> answer (run (fst (captureAndProcess env s)) s) = trim c
       \<and> capturing (run (fst (captureAndProcess env s)) s) = capturing s
       \<and> snd (captureAndProcess env s) = Fulfilled"
proof -
  from assms(5-7) have ocr: "doOcr env s img = ([Post (ocr_request s img)], JString t)"
    by (simp add: doOcr_def)
  from assms(8-10) have ai:
    "askOpenAI env s (JString t) = ([Post (chat_request (prompt s) s (JString t))], trim c)"
    by (simp add: askOpenAI_def trimmed_content_def)
  from \<open>t \<noteq> []\<close> show ?thesis
    by (simp add: cycle_with_frame [OF assms(1-4)] ocr ai)
qed

theorem successful_cycle_sets_trimmed_answer_witness:
  "openAiKey running_app \<noteq> [] \<and> ocrKey running_app \<noteq> []
   \<and> webcamRef env_answers = camera_ready
   \<and> axios_post env_answers
         (ocr_request running_app example_frame) =
       Resolves (ocr_body (JString planet_question))
   \<and> axios_post env_answers (chat_request (prompt running_app) running_app
         (JString planet_question)) = Resolves (chat_body (JString (lit ''B'')))
   \<and> status (run (fst (captureAndProcess env_answers running_app)) running_app) =
       lit ''Complete''
   \<and> answer (run (fst (captureAndProcess env_answers running_app)) running_app) = lit ''B''"
proof -
  have frame: "webcamRef env_answers = Some (Returns (Some example_frame))"
    by (simp add: env_answers_def camera_ready_def)
  have ocr: "axios_post env_answers
      (ocr_request running_app example_frame) =
      Resolves (ocr_body (JString planet_question))"
    by (simp add: env_answers_def ocr_request_def)
  have ocr_text: "parsed_text (ocr_body (JString planet_question)) = JString planet_question"
    by (rule parsed_text_ocr_body)
  have nonempty: "planet_question \<noteq> []"
    by (simp add: planet_question_def)
  have chat: "axios_post env_answers
      (chat_request (prompt running_app) running_app (JString planet_question)) =
      Resolves (chat_body (JString (lit ''B'')))"
    by (simp add: env_answers_def chat_request_def)
  have body: "\<not> nullish (chat_body (JString (lit ''B'')))"
    by (simp add: chat_body_def)
  have content: "first_choice_content (chat_body (JString (lit ''B''))) = JString (lit ''B'')"
    by (rule first_choice_content_chat_body)
  from successful_cycle_sets_trimmed_answer
         [OF keys_running_app frame example_frame_not_empty ocr ocr_text nonempty chat body content]
  show ?thesis
    using keys_running_app frame ocr chat by (simp add: trim_B camera_ready_def)
qed

text \<open>
  When the completion request is rejected, \<open>askOpenAI\<close> sets the status \<open>OpenAI failed\<close>
  and returns the marker; \<open>captureAndProcess\<close> then sets the status \<open>Complete\<close> all the
  same, and the marker becomes the answer.
\<close>

lemma rejected_completion_cycle:
  assumes "openAiKey s \<noteq> []" and "ocrKey s \<noteq> []"
    and "webcamRef env = Some (Returns (Some img))" and "img \<noteq> []"
    and "truthy (snd (doOcr env s img))"
    and "axios_post env (chat_request (prompt s) s (snd (doOcr env s img))) = Rejects e"
  shows "statuses (fst (captureAndProcess env s)) =
           lit ''Capturing...'' # lit ''Extracting text...'' # statuses (fst (doOcr env s img))
             @ [lit ''Getting answer...'', lit ''OpenAI failed'', lit ''Complete'']"
    and "status (run (fst (captureAndProcess env s)) s) = lit ''Complete''"
    and "answer (run (fst (captureAndProcess env s)) s) = lit ''API Error''"
    and "capturing (run (fst (captureAndProcess env s)) s) = capturing s"
    and "timers (run (fst (captureAndProcess env s)) s) = timers s"
proof -
  from assms(6) have ai: "askOpenAI env s (snd (doOcr env s img)) =
      ([Post (chat_request (prompt s) s (snd (doOcr env s img))),
        SetStatus (lit ''OpenAI failed'')], lit ''API Error'')"
    by (simp add: askOpenAI_def)
  have cycle: "fst (captureAndProcess env s) =
      SetStatus (lit ''Capturing...'') # SetStatus (lit ''Extracting text...'')
        # fst (doOcr env s img)
        @ [SetStatus (lit ''Getting answer...''),
           Post (chat_request (prompt s) s (snd (doOcr env s img))),
           SetStatus (lit ''OpenAI failed''), SetStatus (lit ''Complete''),
           SetAnswer (lit ''API Error'')]"
    using assms(5) by (simp add: cycle_with_frame [OF assms(1-4)] ai)
  show "statuses (fst (captureAndProcess env s)) =
           lit ''Capturing...'' # lit ''Extracting text...'' # statuses (fst (doOcr env s img))
             @ [lit ''Getting answer...'', lit ''OpenAI failed'', lit ''Complete'']"
    by (simp add: cycle statuses_append)
  show "status (run (fst (captureAndProcess env s)) s) = lit ''Complete''"
    by (simp add: cycle run_append)
  show "answer (run (fst (captureAndProcess env s)) s) = lit ''API Error''"
    by (simp add: cycle run_append)
  have "capturing (run (fst (doOcr env s img)) x) = capturing x" for x
    using doOcr_events [of env s img] by auto
  then show "capturing (run (fst (captureAndProcess env s)) s) = capturing s"
    by (simp add: cycle run_append)
  have "timers (run (fst (doOcr env s img)) x) = timers x" for x
    using doOcr_events [of env s img] by auto
  then show "timers (run (fst (captureAndProcess env s)) s) = timers s"
    by (simp add: cycle run_append)
qed

text \<open>
  C1. The cycle of \<open>running_app\<close> in which the completion service answers with status 500:
  the answer ends as the marker, \<open>capturing\<close> stays true and the timer stays, but the status
  \<open>OpenAI failed\<close> is replaced at once and the cycle ends with the status \<open>Complete\<close>.
\<close>

theorem completion_failure_ends_with_status_Complete:
  "statuses (fst (captureAndProcess env_completion_fails running_app)) =
     [lit ''Capturing...'', lit ''Extracting text...'', lit ''Getting answer...'',
      lit ''OpenAI failed'', lit ''Complete'']
   \<and> status (run (fst (captureAndProcess env_completion_fails running_app)) running_app) =
       lit ''Complete''
   \<and> answer (run (fst (captureAndProcess env_completion_fails running_app)) running_app) =
       lit ''API Error''
   \<and> capturing (run (fst (captureAndProcess env_completion_fails running_app)) running_app)
   \<and> timers (run (fst (captureAndProcess env_completion_fails running_app)) running_app) =
       [(1, SafeInteger 40000)]"
proof -
  let ?img = example_frame
  have frame: "webcamRef env_completion_fails = Some (Returns (Some ?img))"
    by (simp add: env_completion_fails_def camera_ready_def)
  have ocr: "doOcr env_completion_fails running_app ?img =
      ([Post (ocr_request running_app ?img)], JString planet_question)"
    by (simp add: doOcr_def env_completion_fails_def ocr_request_def parsed_text_ocr_body
        planet_question_def)
  have ocr_text: "truthy (snd (doOcr env_completion_fails running_app ?img))"
    by (simp add: ocr planet_question_def)
  have chat: "axios_post env_completion_fails
      (chat_request (prompt running_app) running_app
         (snd (doOcr env_completion_fails running_app ?img))) =
      Rejects (lit ''Request failed with status code 500'')"
    by (simp add: env_completion_fails_def chat_request_def)
  note cycle = rejected_completion_cycle
                 [OF keys_running_app frame example_frame_not_empty ocr_text chat]
  have "capturing running_app" and "timers running_app = [(1, SafeInteger 40000)]"
    by (simp_all add: running_app_def)
  with cycle show ?thesis
    by (simp add: ocr)
qed

section \<open>Text that is empty or blank\<close>

text \<open>
  When \<open>doOcr\<close> returns the empty string, the cycle sets the status \<open>No text found.\<close>,
  clears the answer and returns without a request to the completion service.
\<close>

lemma empty_text_cycle:
  assumes "openAiKey s \<noteq> []" and "ocrKey s \<noteq> []"
    and "webcamRef env = Some (Returns (Some img))" and "img \<noteq> []"
    and "snd (doOcr env s img) = JString []"
  shows "status (run (fst (captureAndProcess env s)) s) = lit ''No text found.''"
    and "answer (run (fst (captureAndProcess env s)) s) = []"
    and "capturing (run (fst (captureAndProcess env s)) s) = capturing s"
    and "filter is_post (fst (captureAndProcess env s)) = [Post (ocr_request s img)]"
proof -
  have cycle: "fst (captureAndProcess env s) =
      SetStatus (lit ''Capturing...'') # SetStatus (lit ''Extracting text...'')
        # fst (doOcr env s img) @ [SetStatus (lit ''No text found.''), SetAnswer []]"
    using assms(5) by (simp add: cycle_with_frame [OF assms(1-4)])
  show "status (run (fst (captureAndProcess env s)) s) = lit ''No text found.''"
    by (simp add: cycle run_append)
  show "answer (run (fst (captureAndProcess env s)) s) = []"
    by (simp add: cycle run_append)
  have "capturing (run (fst (doOcr env s img)) x) = capturing x" for x
    using doOcr_events [of env s img] by auto
  then show "capturing (run (fst (captureAndProcess env s)) s) = capturing s"
    by (simp add: cycle run_append)
  show "filter is_post (fst (captureAndProcess env s)) = [Post (ocr_request s img)]"
    using doOcr_events [of env s img] by (auto simp: cycle)
qed

text \<open>
  The cycle of src/unnamed/part_001 tests \<open>!text.trim()\<close>: text that is blank ends the
  cycle as empty text does, without a request to the completion service.
\<close>

lemma blank_text_cycle_part_001:
  assumes "webcamRef env = Some (Returns (Some img))" and "img \<noteq> []"
    and "snd (doOcr_part_001 env s img) = JString t" and "trim t = []"
  shows "statuses (fst (captureAndProcess_part_001 message_of env s)) =
           lit ''Capturing...'' # lit ''Extracting text...''
             # statuses (fst (doOcr_part_001 env s img)) @ [lit ''No text found.'']"
    and "answer (run (fst (captureAndProcess_part_001 message_of env s)) s) = []"
    and "filter is_post (fst (captureAndProcess_part_001 message_of env s)) =
           filter is_post (fst (doOcr_part_001 env s img))"
proof -
  have cycle: "fst (captureAndProcess_part_001 message_of env s) =
      SetStatus (lit ''Capturing...'') # SetStatus (lit ''Extracting text...'')
        # fst (doOcr_part_001 env s img) @ [SetStatus (lit ''No text found.''), SetAnswer []]"
    using assms by (simp add: captureAndProcess_part_001_def split_beta)
  show "statuses (fst (captureAndProcess_part_001 message_of env s)) =
           lit ''Capturing...'' # lit ''Extracting text...''
             # statuses (fst (doOcr_part_001 env s img)) @ [lit ''No text found.'']"
    by (simp add: cycle statuses_append)
  show "answer (run (fst (captureAndProcess_part_001 message_of env s)) s) = []"
    by (simp add: cycle run_append)
  show "filter is_post (fst (captureAndProcess_part_001 message_of env s)) =
           filter is_post (fst (doOcr_part_001 env s img))"
    by (simp add: cycle)
qed

text \<open>
  C2. The cycle of \<open>running_app\<close> for a frame whose text the OCR service gives as a line
  break: src/App.tsx tests \<open>!text\<close>, the text is not empty, and the cycle posts it to the
  completion service and ends with the status \<open>Complete\<close> and the reply as the answer. The
  cycle of src/unnamed/part_001 on the same input posts to the OCR service only and ends
  with \<open>No text found.\<close> and no answer.
\<close>

theorem blank_text_reaches_completion:
  "filter is_post (fst (captureAndProcess env_blank_text running_app)) =
     [Post (ocr_request running_app example_frame),
      Post (chat_request DEFAULT_PROMPT running_app (JString [0x0D, 0x0A]))]
   \<and> status (run (fst (captureAndProcess env_blank_text running_app)) running_app) =
       lit ''Complete''
   \<and> answer (run (fst (captureAndProcess env_blank_text running_app)) running_app) = lit ''B''
   \<and> trim [0x0D, 0x0A] = []
   \<and> filter is_post (fst (captureAndProcess_part_001 message_of env_blank_text running_app)) =
       [Post (ocr_request running_app example_frame)]
   \<and> status (run (fst (captureAndProcess_part_001 message_of env_blank_text running_app))
         running_app) = lit ''No text found.''
   \<and> answer (run (fst (captureAndProcess_part_001 message_of env_blank_text running_app))
         running_app) = []"
proof -
  have frame: "webcamRef env_blank_text = Some (Returns (Some example_frame))"
    by (simp add: env_blank_text_def camera_ready_def)
  have ocr: "doOcr env_blank_text running_app example_frame =
      ([Post (ocr_request running_app example_frame)], JString [0x0D, 0x0A])"
    by (simp add: doOcr_def env_blank_text_def ocr_request_def parsed_text_ocr_body)
  have ai: "askOpenAI env_blank_text running_app (JString [0x0D, 0x0A]) =
      ([Post (chat_request DEFAULT_PROMPT running_app (JString [0x0D, 0x0A]))], lit ''B'')"
    by (simp add: askOpenAI_def env_blank_text_def chat_request_def trimmed_content_def
        first_choice_content_chat_body trim_B)
      (simp add: chat_body_def running_app_def)
  have blank: "trim [0x0D, 0x0A] = []"
    by (simp add: trim_def is_whitespace_def)
  have ocr_001: "doOcr_part_001 env_blank_text running_app example_frame =
      ([Post (ocr_request running_app example_frame)], JString [0x0D, 0x0A])"
    using keys_running_app
    by (simp add: doOcr_part_001_def env_blank_text_def ocr_request_def parsed_text_ocr_body)
  note part_001 = blank_text_cycle_part_001
      [of env_blank_text example_frame running_app "[0x0D, 0x0A]" message_of,
       OF frame example_frame_not_empty _ blank]
  have status_001: "status (run (fst (captureAndProcess_part_001 message_of env_blank_text
      running_app)) running_app) = lit ''No text found.''"
    using frame blank
    by (simp add: captureAndProcess_part_001_def example_frame_not_empty ocr_001 run_append)
  show ?thesis
    using part_001(2,3) status_001 blank
    by (simp add: cycle_with_frame [OF keys_running_app frame example_frame_not_empty]
        ocr ai ocr_001 run_append)
qed

section \<open>The results of the two clients\<close>

text \<open>
  C4, as the source has it. \<open>askOpenAI\<close> returns the marker when the request is rejected
  (a network error, a status outside 2xx), the trimmed content of the first choice when
  that content is a string, and the empty string when the response has no choices.
\<close>

theorem askOpenAI_result:
  "(axios_post env (chat_request (prompt s) s q) = Rejects e \<longrightarrow>
      askOpenAI env s q =
        ([Post (chat_request (prompt s) s q), SetStatus (lit ''OpenAI failed'')],
         lit ''API Error''))
   \<and> (axios_post env (chat_request (prompt s) s q) = Resolves data \<and> \<not> nullish data
        \<and> first_choice_content data = JString c \<longrightarrow>
      askOpenAI env s q = ([Post (chat_request (prompt s) s q)], trim c))
   \<and> (axios_post env (chat_request (prompt s) s q) = Resolves data \<and> \<not> nullish data
        \<and> get_named (lit ''choices'') data = JUndefined \<longrightarrow>
      askOpenAI env s q = ([Post (chat_request (prompt s) s q)], []))"
  by (simp add: askOpenAI_def trimmed_content_def first_choice_content_def opt_chain_def)

theorem askOpenAI_result_witness:
  "axios_post env_completion_fails
       (chat_request (prompt running_app) running_app (JString planet_question)) =
     Rejects (lit ''Request failed with status code 500'')
   \<and> snd (askOpenAI env_completion_fails running_app (JString planet_question)) =
       lit ''API Error''
   \<and> axios_post env_answers
       (chat_request (prompt running_app) running_app (JString planet_question)) =
     Resolves (chat_body (JString (lit ''B'')))
   \<and> \<not> nullish (chat_body (JString (lit ''B'')))
   \<and> first_choice_content (chat_body (JString (lit ''B''))) = JString (lit ''B'')
   \<and> snd (askOpenAI env_answers running_app (JString planet_question)) = lit ''B''
   \<and> axios_post env_no_choices
       (chat_request (prompt running_app) running_app (JString planet_question)) =
     Resolves (JObject [(lit ''id'', JString (lit ''chatcmpl-1''))])
   \<and> get_named (lit ''choices'') (JObject [(lit ''id'', JString (lit ''chatcmpl-1''))]) =
       JUndefined
   \<and> snd (askOpenAI env_no_choices running_app (JString planet_question)) = []"
proof -
  let ?req = "chat_request (prompt running_app) running_app (JString planet_question)"
  have rejected: "axios_post env_completion_fails ?req =
      Rejects (lit ''Request failed with status code 500'')"
    by (simp add: env_completion_fails_def chat_request_def)
  have resolved: "axios_post env_answers ?req = Resolves (chat_body (JString (lit ''B'')))"
    by (simp add: env_answers_def chat_request_def)
  have body: "\<not> nullish (chat_body (JString (lit ''B'')))"
    by (simp add: chat_body_def)
  have content: "first_choice_content (chat_body (JString (lit ''B''))) = JString (lit ''B'')"
    by (rule first_choice_content_chat_body)
  have missing: "axios_post env_no_choices ?req =
      Resolves (JObject [(lit ''id'', JString (lit ''chatcmpl-1''))])"
    by (simp add: env_no_choices_def chat_request_def)
  have no_choices:
    "get_named (lit ''choices'') (JObject [(lit ''id'', JString (lit ''chatcmpl-1''))]) =
       JUndefined"
    by simp
  from askOpenAI_result
         [of env_completion_fails running_app "JString planet_question"
            "lit ''Request failed with status code 500''"]
       askOpenAI_result
         [of env_answers running_app "JString planet_question" _
            "chat_body (JString (lit ''B''))" "lit ''B''"]
       askOpenAI_result
         [of env_no_choices running_app "JString planet_question" _
            "JObject [(lit ''id'', JString (lit ''chatcmpl-1''))]"]
  show ?thesis
    using rejected resolved body content missing no_choices by (simp add: trim_B)
qed

text \<open>
  C4, as stated, fails for a response without choices: the result is the empty string,
  not the marker.
\<close>

theorem missing_choices_returns_empty_string:
  "axios_post env_no_choices
       (chat_request (prompt running_app) running_app (JString planet_question)) =
     Resolves (JObject [(lit ''id'', JString (lit ''chatcmpl-1''))])
   \<and> get_named (lit ''choices'') (JObject [(lit ''id'', JString (lit ''chatcmpl-1''))]) =
       JUndefined
   \<and> snd (askOpenAI env_no_choices running_app (JString planet_question)) = []
   \<and> snd (askOpenAI env_no_choices running_app (JString planet_question)) \<noteq> lit ''API Error''"
  by (simp add: askOpenAI_def env_no_choices_def chat_request_def trimmed_content_def
      first_choice_content_def opt_chain_def)




section \<open>The start of a session\<close>






section \<open>The interval of the settings\<close>

lemma digit_unat: "d < 10 \<Longrightarrow> unat (of_nat (48 + d) :: 16 word) = 48 + d"
  by (simp only: unat_of_nat) simp

lemma is_digit_unat: "is_digit c \<longleftrightarrow> 48 \<le> unat c \<and> unat c \<le> 57"
  by (simp add: is_digit_def word_le_nat_alt)

lemma is_digit_of_nat: "d < 10 \<Longrightarrow> is_digit (of_nat (48 + d))"
  by (simp only: is_digit_unat digit_unat) simp

lemma is_whitespace_unat:
  "is_whitespace c \<longleftrightarrow>
     unat c \<in> {9, 10, 11, 12, 13, 32, 160, 5760, 8232, 8233, 8239, 8287, 12288, 65279}
     \<or> (8192 \<le> unat c \<and> unat c \<le> 8202)"
  by (simp add: is_whitespace_def word_le_nat_alt word_unat_eq_iff)

lemma digit_not_whitespace: "is_digit c \<Longrightarrow> \<not> is_whitespace c"
  by (auto simp: is_digit_unat is_whitespace_unat)

lemma decimal_digits: "list_all is_digit (decimal n)"
proof (induction n rule: decimal.induct)
  case (1 n)
  have last: "is_digit (of_nat (48 + n mod 10))"
    by (rule is_digit_of_nat) simp
  show ?case
  proof (cases "n < 10")
    case True
    then have "decimal n = [of_nat (48 + n)]"
      by (subst decimal.simps) (simp del: of_nat_add)
    with True show ?thesis
      using is_digit_of_nat [of n] by (simp del: of_nat_add)
  next
    case False
    then have "decimal n = decimal (n div 10) @ [of_nat (48 + n mod 10)]"
      by (subst decimal.simps) (simp del: of_nat_add)
    with False 1 last show ?thesis
      by (simp del: of_nat_add)
  qed
qed

lemma decimal_not_Nil: "decimal n \<noteq> []"
  by (subst decimal.simps) simp

lemma decimal_value_append:
  "decimal_value (xs @ [c]) = 10 * decimal_value xs + (unat c - 48)"
  by (simp add: decimal_value_def)

text \<open>Reading the digits that \<open>toString\<close> prints gives the number back.\<close>

lemma decimal_value_decimal: "decimal_value (decimal n) = n"
proof (induction n rule: decimal.induct)
  case (1 n)
  have last: "unat (of_nat (48 + n mod 10) :: 16 word) = 48 + n mod 10"
    by (rule digit_unat) simp
  show ?case
  proof (cases "n < 10")
    case True
    then have "decimal n = [of_nat (48 + n)]"
      by (subst decimal.simps) (simp del: of_nat_add)
    with True show ?thesis
      using digit_unat [of n] by (simp add: decimal_value_def del: of_nat_add)
  next
    case False
    then have "decimal n = decimal (n div 10) @ [of_nat (48 + n mod 10)]"
      by (subst decimal.simps) (simp del: of_nat_add)
    with False 1 last show ?thesis
      by (simp add: decimal_value_append del: of_nat_add)
  qed
qed

lemma trim_id:
  assumes "xs \<noteq> []" and "\<not> is_whitespace (hd xs)" and "\<not> is_whitespace (last xs)"
  shows "trim xs = xs"
proof -
  from assms have "dropWhile is_whitespace xs = xs"
    by (cases xs) auto
  moreover from assms have "dropWhile is_whitespace (rev xs) = rev xs"
    by (cases "rev xs") (auto simp: hd_rev)
  ultimately show ?thesis
    by (simp add: trim_def)
qed

lemma trim_digits:
  assumes "list_all is_digit xs"
  shows "trim xs = xs"
proof (cases "xs = []")
  case True
  then show ?thesis by (simp add: trim_def)
next
  case False
  with assms have "is_digit (hd xs)" and "is_digit (last xs)"
    by (auto simp: list_all_iff)
  then have "\<not> is_whitespace (hd xs)" and "\<not> is_whitespace (last xs)"
    by (simp_all add: digit_not_whitespace)
  with False show ?thesis by (rule trim_id)
qed

lemma Number_of_decimal:
  "int n \<le> 2 ^ 53 \<Longrightarrow> Number_of_string (decimal n) = SafeInteger (int n)"
  by (simp add: Number_of_string_def trim_digits decimal_digits decimal_not_Nil
      decimal_value_decimal safe_integer_def)

lemma saved_interval:
  "fst (saveSettings s st) (lit ''interval'') = Some (Number_toString (interval s))"
  by (simp add: saveSettings_def)

text \<open>
  C9, as the source has it. The interval is 40 when the storage holds no interval or an
  empty one; \<open>saveSettings\<close> leaves it as it is; an edit to the digits of a positive
  integer makes it that integer; and a positive integer that was saved is the interval
  of the next start.
\<close>

theorem interval_default_and_round_trip:
  "(st (lit ''interval'') = None \<or> st (lit ''interval'') = Some [] \<longrightarrow>
      interval (initial_app st) = SafeInteger 40)
   \<and> interval (snd (saveSettings s st)) = interval s
   \<and> (0 < n \<and> int n \<le> 2 ^ 53 \<longrightarrow>
      interval (onChange_interval (decimal n) s) = SafeInteger (int n))
   \<and> (interval s = SafeInteger (int n) \<and> 0 < n \<and> int n \<le> 2 ^ 53 \<longrightarrow>
      interval (initial_app (fst (saveSettings s st))) = SafeInteger (int n))"
proof -
  have default: "interval (initial_app st) = SafeInteger 40"
    if "st (lit ''interval'') = None \<or> st (lit ''interval'') = Some []"
    using that by (auto simp: initial_app_def DEFAULT_INTERVAL_def)
  have save: "interval (snd (saveSettings s st)) = interval s"
    by (simp add: saveSettings_def)
  have edit: "interval (onChange_interval (decimal n) s) = SafeInteger (int n)"
    if "int n \<le> 2 ^ 53"
    using that by (simp add: onChange_interval_def Number_of_decimal)
  have reload: "interval (initial_app (fst (saveSettings s st))) = SafeInteger (int n)"
    if "interval s = SafeInteger (int n)" and "int n \<le> 2 ^ 53"
    using that
    by (simp add: initial_app_def saved_interval decimal_not_Nil Number_of_decimal)
  from default save edit reload show ?thesis
    by blast
qed

theorem interval_default_and_round_trip_witness:
  "Map.empty (lit ''interval'') = (None :: js_string option)
   \<and> interval (initial_app Map.empty) = SafeInteger 40
   \<and> interval (snd (saveSettings idle_app Map.empty)) = SafeInteger 40
   \<and> (0 :: nat) < 10 \<and> int 10 \<le> 2 ^ 53 \<and> decimal 10 = lit ''10''
   \<and> interval (onChange_interval (lit ''10'') idle_app) = SafeInteger 10
   \<and> interval (onChange_interval (lit ''10'') idle_app) = SafeInteger (int 10)
   \<and> interval (initial_app (fst (saveSettings (onChange_interval (lit ''10'') idle_app)
         Map.empty))) = SafeInteger 10"
proof -
  have digits: "decimal 10 = lit ''10''"
    by (simp add: decimal.simps lit_def)
  have edited: "interval (onChange_interval (lit ''10'') idle_app) = SafeInteger (int 10)"
    using interval_default_and_round_trip [of Map.empty idle_app 10] by (simp add: digits)
  have "interval (initial_app Map.empty) = SafeInteger 40"
    using interval_default_and_round_trip [of Map.empty idle_app 10] by simp
  moreover have "interval (snd (saveSettings idle_app Map.empty)) = SafeInteger 40"
    using interval_default_and_round_trip [of Map.empty idle_app 10]
    by (simp add: idle_app_def DEFAULT_INTERVAL_def)
  moreover have "interval (initial_app (fst (saveSettings
      (onChange_interval (lit ''10'') idle_app) Map.empty))) = SafeInteger 10"
    using interval_default_and_round_trip
            [of Map.empty "onChange_interval (lit ''10'') idle_app" 10] edited
    by simp
  ultimately show ?thesis
    using digits edited by simp
qed

text \<open>
  C9, as stated, fails: clearing the field of the interval makes the interval \<open>0\<close>, and
  after saving the next start loads \<open>0\<close>.
\<close>

theorem cleared_interval_field_gives_zero:
  "interval idle_app = SafeInteger 40
   \<and> interval (onChange_interval [] idle_app) = SafeInteger 0
   \<and> fst (saveSettings (onChange_interval [] idle_app) Map.empty) (lit ''interval'') =
       Some (lit ''0'')
   \<and> interval (initial_app (fst (saveSettings (onChange_interval [] idle_app) Map.empty))) =
       SafeInteger 0"
proof -
  have cleared: "interval (onChange_interval [] idle_app) = SafeInteger 0"
    by (simp add: onChange_interval_def Number_of_string_def trim_def)
  have zero: "decimal 0 = lit ''0''"
    by (simp add: decimal.simps lit_def)
  have read: "Number_of_string (lit ''0'') = SafeInteger 0"
    using Number_of_decimal [of 0] by (simp add: zero)
  show ?thesis
    by (simp add: cleared initial_app_def saved_interval zero read)
      (simp add: idle_app_def DEFAULT_INTERVAL_def)
qed

end
